theory Spec2Isabelle
  imports Complex_Main
begin

section \<open>Tensor elements\<close>

text \<open>
  A tensor element is a float. Finite floats are idealised as reals (no rounding, no
  overflow); the three non-finite values of IEEE-754 are kept, because the source
  divides tensors by Python scalars that can be zero, and torch then yields
  \<open>inf\<close>, \<open>-inf\<close> or \<open>nan\<close> instead of raising. Signed zeros are not modelled:
  every zero is \<open>+0.0\<close>.
\<close>

datatype fl = Fin real | PInf | NInf | NaN

fun fl_neg :: "fl \<Rightarrow> fl" where
  "fl_neg (Fin x) = Fin (- x)"
| "fl_neg PInf = NInf"
| "fl_neg NInf = PInf"
| "fl_neg NaN = NaN"

fun fl_add :: "fl \<Rightarrow> fl \<Rightarrow> fl" where
  "fl_add (Fin x) (Fin y) = Fin (x + y)"
| "fl_add NaN _ = NaN"
| "fl_add _ NaN = NaN"
| "fl_add PInf NInf = NaN"
| "fl_add NInf PInf = NaN"
| "fl_add PInf _ = PInf"
| "fl_add _ PInf = PInf"
| "fl_add NInf _ = NInf"
| "fl_add _ NInf = NInf"

definition fl_sub :: "fl \<Rightarrow> fl \<Rightarrow> fl" where
  "fl_sub a b = fl_add a (fl_neg b)"

fun fl_mul :: "fl \<Rightarrow> fl \<Rightarrow> fl" where
  "fl_mul (Fin x) (Fin y) = Fin (x * y)"
| "fl_mul NaN _ = NaN"
| "fl_mul _ NaN = NaN"
| "fl_mul (Fin x) PInf = (if x = 0 then NaN else if 0 < x then PInf else NInf)"
| "fl_mul (Fin x) NInf = (if x = 0 then NaN else if 0 < x then NInf else PInf)"
| "fl_mul PInf (Fin y) = (if y = 0 then NaN else if 0 < y then PInf else NInf)"
| "fl_mul NInf (Fin y) = (if y = 0 then NaN else if 0 < y then NInf else PInf)"
| "fl_mul PInf PInf = PInf"
| "fl_mul PInf NInf = NInf"
| "fl_mul NInf PInf = NInf"
| "fl_mul NInf NInf = PInf"

fun fl_div :: "fl \<Rightarrow> fl \<Rightarrow> fl" where
  "fl_div (Fin x) (Fin y) =
     (if y = 0 then (if x = 0 then NaN else if 0 < x then PInf else NInf)
      else Fin (x / y))"
| "fl_div NaN _ = NaN"
| "fl_div _ NaN = NaN"
| "fl_div (Fin x) PInf = Fin 0"
| "fl_div (Fin x) NInf = Fin 0"
| "fl_div PInf (Fin y) = (if 0 \<le> y then PInf else NInf)"
| "fl_div NInf (Fin y) = (if 0 \<le> y then NInf else PInf)"
| "fl_div PInf PInf = NaN"
| "fl_div PInf NInf = NaN"
| "fl_div NInf PInf = NaN"
| "fl_div NInf NInf = NaN"

fun fl_exp :: "fl \<Rightarrow> fl" where
  "fl_exp (Fin x) = Fin (exp x)"
| "fl_exp PInf = PInf"
| "fl_exp NInf = Fin 0"
| "fl_exp NaN = NaN"

fun fl_log :: "fl \<Rightarrow> fl" where
  "fl_log (Fin x) = (if 0 < x then Fin (ln x) else if x = 0 then NInf else NaN)"
| "fl_log PInf = PInf"
| "fl_log NInf = NaN"
| "fl_log NaN = NaN"

fun fl_sqrt :: "fl \<Rightarrow> fl" where
  "fl_sqrt (Fin x) = (if 0 \<le> x then Fin (sqrt x) else NaN)"
| "fl_sqrt PInf = PInf"
| "fl_sqrt NInf = NaN"
| "fl_sqrt NaN = NaN"

text \<open>The comparison \<open>a < b\<close>; every comparison with \<open>nan\<close> is false.\<close>

fun fl_less :: "fl \<Rightarrow> fl \<Rightarrow> bool" where
  "fl_less (Fin x) (Fin y) = (x < y)"
| "fl_less NaN _ = False"
| "fl_less _ NaN = False"
| "fl_less _ NInf = False"
| "fl_less PInf _ = False"
| "fl_less NInf _ = True"
| "fl_less _ PInf = True"

text \<open>\<open>x.clip(lo, None)\<close> and \<open>x.clip(None, hi)\<close> on one element; \<open>nan\<close> stays \<open>nan\<close>.\<close>

definition clamp_min :: "real \<Rightarrow> fl \<Rightarrow> fl" where
  "clamp_min lo v = (if fl_less v (Fin lo) then Fin lo else v)"

definition clamp_max :: "real \<Rightarrow> fl \<Rightarrow> fl" where
  "clamp_max hi v = (if fl_less (Fin hi) v then Fin hi else v)"

definition clip :: "real \<Rightarrow> real \<Rightarrow> fl \<Rightarrow> fl" where
  "clip lo hi v = clamp_max hi (clamp_min lo v)"

definition fl_sum :: "fl list \<Rightarrow> fl" where
  "fl_sum vs = foldl fl_add (Fin 0) vs"

section \<open>Tensors\<close>

text \<open>
  The trainer works on batches of feature vectors, and \<open>bregman_loss\<close> flattens
  everything to that rank (\<open>flatten(start_dim=1)\<close>, \<open>einsum("bf,bf->b")\<close>), so a
  tensor is modelled at rank 2: a list of rows, one row per example. A rank-1
  tensor (one value per example) is a \<open>vec\<close>. Broadcasting is not modelled: an
  elementwise operation on two tensors of different shape is torch's RuntimeError.
\<close>

type_synonym vec = "fl list"
type_synonym tensor = "fl list list"

datatype value_error = NoArgumentGiven | UnsupportedActivation | ExpectedLocoLayer

datatype py_error =
    ValueError value_error
  | UnboundLocalError string
  | NameError string
  | KeyError
  | TypeError
  | IndexError
  | RuntimeError

definition tmap :: "(fl \<Rightarrow> fl) \<Rightarrow> tensor \<Rightarrow> tensor" where
  "tmap f t = map (map f) t"

definition shape :: "tensor \<Rightarrow> nat list" where
  "shape t = map length t"

definition vzip :: "(fl \<Rightarrow> fl \<Rightarrow> fl) \<Rightarrow> vec \<Rightarrow> vec \<Rightarrow> py_error + vec" where
  "vzip f a b = (if length a = length b then Inr (map2 f a b) else Inl RuntimeError)"

definition tzip :: "(fl \<Rightarrow> fl \<Rightarrow> fl) \<Rightarrow> tensor \<Rightarrow> tensor \<Rightarrow> py_error + tensor" where
  "tzip f a b =
     (if shape a = shape b then Inr (map2 (\<lambda>r s. map2 f r s) a b) else Inl RuntimeError)"

definition tadd :: "tensor \<Rightarrow> tensor \<Rightarrow> py_error + tensor" where
  "tadd = tzip fl_add"

definition tsub :: "tensor \<Rightarrow> tensor \<Rightarrow> py_error + tensor" where
  "tsub = tzip fl_sub"

text \<open>A Python float times a tensor, and a tensor divided by a Python float.\<close>

definition smul :: "real \<Rightarrow> tensor \<Rightarrow> tensor" where
  "smul c t = tmap (fl_mul (Fin c)) t"

definition sdiv :: "tensor \<Rightarrow> real \<Rightarrow> tensor" where
  "sdiv t c = tmap (\<lambda>v. fl_div v (Fin c)) t"

text \<open>
  \<open>t.norm()\<close>: the 2-norm over all elements, in exact arithmetic. The program
  computes it in float32 and rounds every operation, so its value can differ from
  this one in the last bits; nothing below bounds a magnitude through this definition.
\<close>

definition tnorm :: "tensor \<Rightarrow> fl" where
  "tnorm t = fl_sqrt (fl_sum (map (\<lambda>v. fl_mul v v) (concat t)))"

text \<open>\<open>t.size(1)\<close>: the length of the feature dimension.\<close>

definition size1 :: "tensor \<Rightarrow> nat" where
  "size1 t = (case t of [] \<Rightarrow> 0 | r # _ \<Rightarrow> length r)"

text \<open>\<open>t.flatten(start_dim=1)\<close> leaves a rank-2 tensor as it is.\<close>

definition flatten_start1 :: "tensor \<Rightarrow> tensor" where
  "flatten_start1 t = t"

text \<open>\<open>v.mean()\<close> of a rank-1 tensor; the mean of no element is \<open>0/0\<close>.\<close>

definition vmean :: "vec \<Rightarrow> fl" where
  "vmean v = fl_div (fl_sum v) (Fin (real (length v)))"

text \<open>\<open>torch.einsum("bf,bf->b", a, b)\<close>: the inner product of each pair of rows.\<close>

definition einsum_bf :: "tensor \<Rightarrow> tensor \<Rightarrow> py_error + vec" where
  "einsum_bf a b =
     (if shape a = shape b then Inr (map2 (\<lambda>r s. fl_sum (map2 fl_mul r s)) a b)
      else Inl RuntimeError)"

section \<open>Activations\<close>

text \<open>
  The activation of a layer is an instance of a torch module. The four kinds the source
  tests with \<open>isinstance\<close> are constructors; any other module is \<open>OtherAct\<close> with the
  function it computes.
\<close>

datatype activation = Sigmoid | Tanh | ReLU | Softmax | OtherAct "tensor \<Rightarrow> tensor"

fun fl_sigmoid :: "fl \<Rightarrow> fl" where
  "fl_sigmoid (Fin x) = Fin (1 / (1 + exp (- x)))"
| "fl_sigmoid PInf = Fin 1"
| "fl_sigmoid NInf = Fin 0"
| "fl_sigmoid NaN = NaN"

fun fl_tanh :: "fl \<Rightarrow> fl" where
  "fl_tanh (Fin x) = Fin (tanh x)"
| "fl_tanh PInf = Fin 1"
| "fl_tanh NInf = Fin (- 1)"
| "fl_tanh NaN = NaN"

definition fl_relu :: "fl \<Rightarrow> fl" where
  "fl_relu v = clamp_min 0 v"

definition softmax_row :: "vec \<Rightarrow> vec" where
  "softmax_row r = map (\<lambda>v. fl_div (fl_exp v) (fl_sum (map fl_exp r))) r"

text \<open>\<open>self.activation(t)\<close>: calling the activation module on a tensor.\<close>

fun apply_activation :: "activation \<Rightarrow> tensor \<Rightarrow> tensor" where
  "apply_activation Sigmoid t = tmap fl_sigmoid t"
| "apply_activation Tanh t = tmap fl_tanh t"
| "apply_activation ReLU t = tmap fl_relu t"
| "apply_activation Softmax t = map softmax_row t"
| "apply_activation (OtherAct f) t = f t"

section \<open>Names\<close>

text \<open>
  Python resolves a name when the expression is evaluated. A local of a function that
  has not been assigned yet raises UnboundLocalError; a global that the module never
  binds raises NameError. A frame maps the locals bound so far to their values.
\<close>

definition load_fast :: "(string \<rightharpoonup> 'a) \<Rightarrow> string \<Rightarrow> py_error + 'a" where
  "load_fast frame n = (case frame n of None \<Rightarrow> Inl (UnboundLocalError n) | Some v \<Rightarrow> Inr v)"

text \<open>The names the module binds at top level: its imports, the table and the two classes.\<close>

definition module_globals :: "string list" where
  "module_globals =
     [''functools'', ''math'', ''typing'', ''warnings'', ''torch'', ''nn'',
      ''function_mapping'', ''LocoLayer'', ''LocopropTrainer'']"

definition load_global :: "string \<Rightarrow> py_error + unit" where
  "load_global n = (if n \<in> set module_globals then Inr () else Inl (NameError n))"

section \<open>The potential table\<close>

text \<open>
  \<open>function_mapping\<close> is a dict whose four keys are the activation classes themselves.
  A module instance hashes and compares by identity, so it is a different key from
  its class.
\<close>

datatype act_class = SigmoidClass | TanhClass | ReLUClass | SoftmaxClass

datatype dict_key = ClassKey act_class | InstanceKey activation

definition softplus_potential :: "tensor \<Rightarrow> py_error + vec" where
  "softplus_potential x =
     Inr (map (\<lambda>r. fl_sum (map (\<lambda>v. fl_add v (fl_log (fl_add (Fin 1) (fl_exp (fl_neg v))))) r)) x)"

definition relu_potential :: "tensor \<Rightarrow> py_error + vec" where
  "relu_potential x =
     (case load_global ''F'' of
        Inl e \<Rightarrow> Inl e
      | Inr _ \<Rightarrow> Inr (map (\<lambda>r. fl_mul (Fin (1/2)) (fl_sum (map (\<lambda>v. fl_mul v (fl_relu v)) r))) x))"

definition logsumexp_potential :: "tensor \<Rightarrow> py_error + vec" where
  "logsumexp_potential x = Inr (map (\<lambda>r. fl_log (fl_sum (map fl_exp r))) x)"

fun function_mapping :: "dict_key \<Rightarrow> (tensor \<Rightarrow> py_error + vec) option" where
  "function_mapping (ClassKey SigmoidClass) = Some softplus_potential"
| "function_mapping (ClassKey TanhClass) = Some softplus_potential"
| "function_mapping (ClassKey ReLUClass) = Some relu_potential"
| "function_mapping (ClassKey SoftmaxClass) = Some logsumexp_potential"
| "function_mapping (InstanceKey _) = None"

section \<open>LocoLayer\<close>

text \<open>
  A parameter is a tensor with its \<open>requires_grad\<close> flag; only its element count and
  the flag matter to the trainer. The wrapped module is a function of the current
  parameters of the layer and of its input.
\<close>

record param =
  pdata :: "fl list"
  requires_grad :: bool

definition numel :: "param \<Rightarrow> nat" where
  "numel p = length (pdata p)"

record loco =
  lmodule :: "param list \<Rightarrow> tensor \<Rightarrow> tensor"
  lparams :: "param list"
  lact :: activation
  implicit :: bool
  eps :: real

definition hidden :: "loco \<Rightarrow> tensor \<Rightarrow> tensor" where
  "hidden L x = lmodule L (lparams L) x"

fun forward :: "loco \<Rightarrow> tensor option \<Rightarrow> tensor option \<Rightarrow> py_error + tensor" where
  "forward L None None = Inl (ValueError NoArgumentGiven)"
| "forward L (Some x) None =
     (let h = hidden L x in Inr (if implicit L then h else apply_activation (lact L) h))"
| "forward L _ (Some h) = Inr (if implicit L then h else apply_activation (lact L) h)"

text \<open>
  \<open>_pseudo_inverse(self, target)\<close>. The parameter is \<open>target\<close>; the body reads \<open>y\<close>,
  which is a local of the function (the ReLU branch assigns it) and is bound nowhere
  before it is read.
\<close>

definition pseudo_inverse :: "loco \<Rightarrow> tensor \<Rightarrow> py_error + tensor" where
  "pseudo_inverse L target =
     (let frame = [''target'' \<mapsto> target] in
      case lact L of
        Sigmoid \<Rightarrow>
          (case load_fast frame ''y'' of
             Inl e \<Rightarrow> Inl e
           | Inr y \<Rightarrow>
               (let a = tmap (clip (eps L) (1 - eps L)) y
                in Inr (tmap (\<lambda>v. fl_log (fl_div v (fl_sub (Fin 1) v))) a)))
      | Tanh \<Rightarrow>
          (case load_fast frame ''y'' of
             Inl e \<Rightarrow> Inl e
           | Inr y \<Rightarrow>
               (let a = tmap (\<lambda>v. fl_div (fl_add v (Fin 1)) (Fin 2)) y;
                    a = tmap (clip (eps L) (1 - eps L)) a
                in Inr (tmap (\<lambda>v. fl_mul (Fin (1/2)) (fl_log (fl_div v (fl_sub (Fin 1) v)))) a)))
      | ReLU \<Rightarrow>
          (case load_fast frame ''y'' of
             Inl e \<Rightarrow> Inl e
           | Inr y \<Rightarrow> Inr (tmap (clamp_min 0) y))
      | Softmax \<Rightarrow>
          (case load_fast frame ''y'' of
             Inl e \<Rightarrow> Inl e
           | Inr y \<Rightarrow> Inr (tmap fl_log y))
      | OtherAct f \<Rightarrow> Inl (ValueError UnsupportedActivation))"

text \<open>
  \<open>bregman_loss(self, x, y)\<close>, in Python's order of evaluation: the pre-activation, the
  pseudo-inverse, the table lookup with the activation instance as key, the two
  potentials and their difference, then the arguments of the einsum.
\<close>

definition bregman_loss :: "loco \<Rightarrow> tensor \<Rightarrow> tensor \<Rightarrow> py_error + vec" where
  "bregman_loss L x y =
     (let pre_act = flatten_start1 (hidden L x) in
      case pseudo_inverse L y of
        Inl e \<Rightarrow> Inl e
      | Inr pinv \<Rightarrow>
     (let a = flatten_start1 pinv in
      case function_mapping (InstanceKey (lact L)) of
        None \<Rightarrow> Inl KeyError
      | Some F \<Rightarrow>
     (case F pre_act of Inl e \<Rightarrow> Inl e | Inr Fp \<Rightarrow>
     (case F a of Inl e \<Rightarrow> Inl e | Inr Fa \<Rightarrow>
     (case vzip fl_sub Fp Fa of Inl e \<Rightarrow> Inl e | Inr d1 \<Rightarrow>
     (case tsub pre_act a of Inl e \<Rightarrow> Inl e | Inr diff \<Rightarrow>
     (case einsum_bf (apply_activation (lact L) a) diff of Inl e \<Rightarrow> Inl e | Inr ip \<Rightarrow>
        vzip fl_sub d1 ip)))))))"

section \<open>LocopropTrainer\<close>

text \<open>
  A layer of the model is a LocoLayer or any other module, given by the function it
  computes from its parameters and its input.
\<close>

datatype layer = LocoLayer loco | PlainLayer "param list \<Rightarrow> tensor \<Rightarrow> tensor" "param list"

fun parameters :: "layer \<Rightarrow> param list" where
  "parameters (LocoLayer L) = lparams L"
| "parameters (PlainLayer f ps) = ps"

fun is_LocoLayer :: "layer \<Rightarrow> bool" where
  "is_LocoLayer (LocoLayer L) = True"
| "is_LocoLayer (PlainLayer f ps) = False"

text \<open>
  A torch optimizer: the learning rate of its first parameter group, which the trainer
  reads and writes, and its internal buffers, which only the optimizer touches.
\<close>

record optimizer =
  lr :: real
  buffers :: "fl list"

record trainer =
  model :: "layer list"
  loss_fn :: "tensor \<Rightarrow> tensor \<Rightarrow> fl"
  learning_rate :: real
  local_iterations :: int
  variant :: string
  momentum :: real
  correction :: real
  opts :: "optimizer option list"
  grads :: "tensor option list"
  step_count :: nat

subsection \<open>Construction\<close>

definition trainable_params :: "layer \<Rightarrow> nat" where
  "trainable_params layer = sum_list (map numel (filter requires_grad (parameters layer)))"

text \<open>
  One pass of the loop of \<open>__init__\<close>. The state is the slot list built so far and the
  calls of \<open>warnings.warn\<close> made so far, each recorded by the index of its layer.
  \<open>optimizer_class\<close> stands for \<open>optimizer_class(layer.parameters(), **optimizer_hparams)\<close>.
\<close>

definition init_layer ::
  "(param list \<Rightarrow> optimizer) \<Rightarrow> optimizer option list \<times> nat list \<Rightarrow> layer
     \<Rightarrow> optimizer option list \<times> nat list" where
  "init_layer optimizer_class st layer =
     (let os = fst st; ws = snd st;
          n = trainable_params layer;
          ws = (if 0 < n \<and> \<not> is_LocoLayer layer then ws @ [length os] else ws);
          os = (if is_LocoLayer layer \<and> 0 < n
                then os @ [Some (optimizer_class (parameters layer))]
                else os @ [None])
      in (os, ws))"

definition init ::
  "layer list \<Rightarrow> (tensor \<Rightarrow> tensor \<Rightarrow> fl) \<Rightarrow> (param list \<Rightarrow> optimizer) \<Rightarrow> real \<Rightarrow> int
     \<Rightarrow> string \<Rightarrow> real \<Rightarrow> real \<Rightarrow> trainer \<times> nat list" where
  "init mdl lf optimizer_class lrate iters var mom corr =
     (let r = foldl (init_layer optimizer_class) ([], []) mdl
      in (\<lparr>model = mdl, loss_fn = lf, learning_rate = lrate, local_iterations = iters,
           variant = var, momentum = mom, correction = corr,
           opts = fst r, grads = [], step_count = 0\<rparr>, snd r))"

subsection \<open>The differentiation engine and the optimizer\<close>

text \<open>
  What \<open>step\<close> takes from torch. \<open>hidden_grad\<close> is \<open>h.grad\<close> of the hidden state recorded
  at an index after \<open>hidden_loss.backward()\<close> (it can be absent); \<open>backward_step\<close> is
  \<open>loss.backward(); opt.step()\<close> of one local iteration, which returns the optimizer
  and the parameters of the layer after the update.
\<close>

record engine =
  hidden_grad :: "layer list \<Rightarrow> (tensor \<Rightarrow> tensor \<Rightarrow> fl) \<Rightarrow> tensor \<Rightarrow> tensor \<Rightarrow> nat \<Rightarrow> tensor option"
  backward_step :: "optimizer \<Rightarrow> loco \<Rightarrow> tensor \<Rightarrow> tensor \<Rightarrow> optimizer \<times> param list"

subsection \<open>The forward pass\<close>

fun call_layer :: "layer \<Rightarrow> tensor \<Rightarrow> py_error + tensor" where
  "call_layer (LocoLayer L) x = forward L (Some x) None"
| "call_layer (PlainLayer f ps) x = Inr (f ps x)"

fun forward_pass ::
  "(layer \<times> optimizer option) list \<Rightarrow> tensor \<Rightarrow> tensor list \<Rightarrow> tensor option list
     \<Rightarrow> py_error + (tensor list \<times> tensor option list \<times> tensor)" where
  "forward_pass [] cur inps hiddens = Inr (inps, hiddens, cur)"
| "forward_pass ((LocoLayer L, Some opt) # rest) cur inps hiddens =
     (let h = hidden L cur in
      case forward L None (Some h) of
        Inl e \<Rightarrow> Inl e
      | Inr c \<Rightarrow> forward_pass rest c (inps @ [cur]) (hiddens @ [Some h]))"
| "forward_pass ((layer, opt) # rest) cur inps hiddens =
     (case call_layer layer cur of
        Inl e \<Rightarrow> Inl e
      | Inr c \<Rightarrow> forward_pass rest c (inps @ [cur]) (hiddens @ [None]))"

subsection \<open>Gradient smoothing\<close>

definition collect_grads ::
  "engine \<Rightarrow> trainer \<Rightarrow> tensor \<Rightarrow> tensor \<Rightarrow> tensor option list \<Rightarrow> tensor option list" where
  "collect_grads eng T xs ys hiddens =
     map (\<lambda>(i, h). case h of None \<Rightarrow> None
                    | Some _ \<Rightarrow> hidden_grad eng (model T) (loss_fn T) xs ys i)
         (enumerate 0 hiddens)"

text \<open>
  One element of the list comprehension over \<open>zip(grads, self.grads)\<close>:
  \<open>None if m is None else ((1 - momentum) * g + momentum * m) / debias\<close>.
  A float times \<open>None\<close> is a TypeError.
\<close>

fun ema_slot :: "real \<Rightarrow> real \<Rightarrow> tensor option \<Rightarrow> tensor option \<Rightarrow> py_error + tensor option" where
  "ema_slot mom debias g None = Inr None"
| "ema_slot mom debias None (Some m) = Inl TypeError"
| "ema_slot mom debias (Some g) (Some m) =
     (case tadd (smul (1 - mom) g) (smul mom m) of
        Inl e \<Rightarrow> Inl e
      | Inr s \<Rightarrow> Inr (Some (sdiv s debias)))"

fun ema_all ::
  "real \<Rightarrow> real \<Rightarrow> (tensor option \<times> tensor option) list \<Rightarrow> py_error + tensor option list" where
  "ema_all mom debias [] = Inr []"
| "ema_all mom debias ((g, m) # rest) =
     (case ema_slot mom debias g m of
        Inl e \<Rightarrow> Inl e
      | Inr s \<Rightarrow> (case ema_all mom debias rest of Inl e \<Rightarrow> Inl e | Inr ss \<Rightarrow> Inr (s # ss)))"

definition smooth :: "trainer \<Rightarrow> tensor option list \<Rightarrow> py_error + tensor option list" where
  "smooth T gs =
     (if length (grads T) = 0 then Inr gs
      else (let debias = 1 - (1 - momentum T) ^ step_count T
            in ema_all (momentum T) debias (zip gs (grads T))))"

definition enable_grad :: "layer \<Rightarrow> layer" where
  "enable_grad layer =
     (case layer of
        LocoLayer L \<Rightarrow> LocoLayer (L\<lparr>lparams := map (\<lambda>p. p\<lparr>requires_grad := True\<rparr>) (lparams L)\<rparr>)
      | PlainLayer f ps \<Rightarrow> PlainLayer f (map (\<lambda>p. p\<lparr>requires_grad := True\<rparr>) ps))"

subsection \<open>Local optimization\<close>

text \<open>
  The state of the loop over the optimizer slots: the layers and optimizers, which the
  local iterations update, and the recorded inputs \<open>inps\<close>, which the correction updates.
\<close>

record loop_state =
  ls_model :: "layer list"
  ls_opts :: "optimizer option list"
  ls_inps :: "tensor list"

definition py_index :: "'a list \<Rightarrow> nat \<Rightarrow> py_error + 'a" where
  "py_index xs i = (if i < length xs then Inr (xs ! i) else Inl IndexError)"

text \<open>
  The local iterations \<open>j\<close> of one layer. \<open>opt.zero_grad()\<close> clears gradients that the
  engine keeps and is not part of the state. An exception leaves the learning rate
  of the iteration in the optimizer.
\<close>

fun local_iters ::
  "engine \<Rightarrow> real \<Rightarrow> int \<Rightarrow> tensor \<Rightarrow> tensor \<Rightarrow> nat list \<Rightarrow> optimizer \<times> loco
     \<Rightarrow> (optimizer \<times> loco) \<times> py_error option" where
  "local_iters eng base_lr n inp post_target [] (opt, L) = ((opt, L), None)"
| "local_iters eng base_lr n inp post_target (j # js) (opt, L) =
     (let opt = opt\<lparr>lr := base_lr * max (1 - real j / real_of_int n) (1/4)\<rparr> in
      case bregman_loss L inp post_target of
        Inl e \<Rightarrow> ((opt, L), Some e)
      | Inr losses \<Rightarrow>
          (let loss = vmean losses;
               r = backward_step eng opt L inp post_target
           in local_iters eng base_lr n inp post_target js (fst r, L\<lparr>lparams := snd r\<rparr>)))"

text \<open>Python's \<open>min(a, b)\<close>: \<open>b\<close> if \<open>b < a\<close>, else \<open>a\<close>.\<close>

definition py_min :: "fl \<Rightarrow> fl \<Rightarrow> fl" where
  "py_min a b = (if fl_less b a then b else a)"

text \<open>
  The increment of the correction:
  \<open>min(norm, correction * delta.size(1) ** 0.5) * delta / norm\<close> with
  \<open>norm = delta.norm() + 1e-5\<close>. The operations are those of the source in its
  order, each one exact here. In the program each one rounds to float32 (there
  \<open>1000.0 + 1e-5\<close> is \<open>1000.0\<close>, and the product and the quotient round again), so
  the elements of the program's increment can differ from these in the last bits.
  The definition gives which tensor of \<open>inps\<close> is written and when; the size of
  what is added is not derived from it.
\<close>

definition nudge :: "real \<Rightarrow> tensor \<Rightarrow> tensor" where
  "nudge c delta =
     (let norm = fl_add (tnorm delta) (Fin (1/100000));
          k = py_min norm (Fin (c * sqrt (real (size1 delta))))
      in tmap (\<lambda>v. fl_div (fl_mul k v) norm) delta)"

definition correct_next :: "real \<Rightarrow> loco \<Rightarrow> nat \<Rightarrow> tensor \<Rightarrow> tensor list \<Rightarrow> py_error + tensor list" where
  "correct_next c L i inp inps =
     (if 0 < c \<and> i + 1 < length inps then
        (case forward L (Some inp) None of
           Inl e \<Rightarrow> Inl e
         | Inr out \<Rightarrow>
        (case tsub out (inps ! (i + 1)) of
           Inl e \<Rightarrow> Inl e
         | Inr delta \<Rightarrow>
        (case tadd (inps ! (i + 1)) (nudge c delta) of
           Inl e \<Rightarrow> Inl e
         | Inr v \<Rightarrow> Inr (inps[i + 1 := v]))))
      else Inr inps)"

text \<open>
  One pass of the loop over \<open>enumerate(zip(self.opts, self.model, self.grads))\<close>. It
  returns the state it reached and the exception it raised, if any.
\<close>

fun opt_body ::
  "engine \<Rightarrow> trainer \<Rightarrow> nat \<Rightarrow> optimizer option \<times> layer \<times> tensor option \<Rightarrow> loop_state
     \<Rightarrow> loop_state \<times> py_error option" where
  "opt_body eng T i (None, layer, grad) st = (st, None)"
| "opt_body eng T i (Some opt, PlainLayer f ps, grad) st =
     (st, Some (ValueError ExpectedLocoLayer))"
| "opt_body eng T i (Some opt, LocoLayer L, grad) st =
     (case py_index (ls_inps st) i of
        Inl e \<Rightarrow> (st, Some e)
      | Inr inp \<Rightarrow>
     (let a = hidden L inp;
          y = apply_activation (lact L) a
      in case grad of
        None \<Rightarrow> (st, Some TypeError)
      | Some g \<Rightarrow>
     (case tsub y (smul (learning_rate T) g) of
        Inl e \<Rightarrow> (st, Some e)
      | Inr post_target \<Rightarrow>
     (let base_lr = lr opt;
          r = local_iters eng base_lr (local_iterations T) inp post_target
                [0 ..< nat (local_iterations T)] (opt, L);
          opt' = fst (fst r);
          L' = snd (fst r)
      in case snd r of
        Some e \<Rightarrow>
          (st\<lparr>ls_model := (ls_model st)[i := LocoLayer L'],
              ls_opts := (ls_opts st)[i := Some opt']\<rparr>, Some e)
      | None \<Rightarrow>
     (let st' = st\<lparr>ls_model := (ls_model st)[i := LocoLayer L'],
                   ls_opts := (ls_opts st)[i := Some (opt'\<lparr>lr := base_lr\<rparr>)]\<rparr>
      in case correct_next (correction T) L' i inp (ls_inps st') of
        Inl e \<Rightarrow> (st', Some e)
      | Inr inps' \<Rightarrow> (st'\<lparr>ls_inps := inps'\<rparr>, None))))))"

fun opt_loop ::
  "engine \<Rightarrow> trainer \<Rightarrow> nat \<Rightarrow> (optimizer option \<times> layer \<times> tensor option) list \<Rightarrow> loop_state
     \<Rightarrow> loop_state \<times> py_error option" where
  "opt_loop eng T i [] st = (st, None)"
| "opt_loop eng T i (item # rest) st =
     (case opt_body eng T i item st of
        (st', Some e) \<Rightarrow> (st', Some e)
      | (st', None) \<Rightarrow> opt_loop eng T (Suc i) rest st')"

subsection \<open>One training step\<close>

text \<open>
  The first half of \<open>step\<close>, up to the loop over the optimizer slots: the counter, the
  forward pass, the loss and its backward pass, the smoothing of the gradients and the
  re-enabling of \<open>requires_grad\<close>. It returns the trainer, the recorded inputs and the loss.
\<close>

definition step_prepare ::
  "engine \<Rightarrow> trainer \<Rightarrow> tensor \<Rightarrow> tensor \<Rightarrow> trainer \<times> (py_error + tensor list \<times> fl)" where
  "step_prepare eng T xs ys =
     (let T = T\<lparr>step_count := step_count T + 1\<rparr> in
      case forward_pass (zip (model T) (opts T)) xs [] [] of
        Inl e \<Rightarrow> (T, Inl e)
      | Inr (inps, hiddens, cur) \<Rightarrow>
     (let hidden_loss = loss_fn T cur ys;
          gs = collect_grads eng T xs ys hiddens
      in case smooth T gs of
        Inl e \<Rightarrow> (T, Inl e)
      | Inr ms \<Rightarrow>
          (T\<lparr>grads := ms, model := map enable_grad (model T)\<rparr>, Inr (inps, hidden_loss))))"

definition slot_items :: "trainer \<Rightarrow> (optimizer option \<times> layer \<times> tensor option) list" where
  "slot_items T = zip (opts T) (zip (model T) (grads T))"

definition step :: "engine \<Rightarrow> trainer \<Rightarrow> tensor \<Rightarrow> tensor \<Rightarrow> trainer \<times> (py_error + fl)" where
  "step eng T xs ys =
     (case step_prepare eng T xs ys of
        (T, Inl e) \<Rightarrow> (T, Inl e)
      | (T, Inr (inps, hidden_loss)) \<Rightarrow>
     (case opt_loop eng T 0 (slot_items T)
             \<lparr>ls_model = model T, ls_opts = opts T, ls_inps = inps\<rparr> of
        (st, err) \<Rightarrow>
          (T\<lparr>model := ls_model st, opts := ls_opts st\<rparr>,
           case err of Some e \<Rightarrow> Inl e | None \<Rightarrow> Inr hidden_loss)))"

section \<open>A small trainer\<close>

text \<open>
  One sigmoid layer around the identity, with one trainable parameter, and the
  constructor's defaults for the learning rate, the local iterations, the momentum and
  the correction. The engine reports the gradient 1 for every recorded hidden state.
\<close>

definition demo_param :: param where
  "demo_param = \<lparr>pdata = [Fin 1], requires_grad = True\<rparr>"

definition demo_loco :: loco where
  "demo_loco = \<lparr>lmodule = (\<lambda>ps x. x), lparams = [demo_param], lact = Sigmoid,
                 implicit = False, eps = 1/100000\<rparr>"

definition demo_engine :: engine where
  "demo_engine = \<lparr>hidden_grad = (\<lambda>m lf xs ys i. Some [[Fin 1]]),
                   backward_step = (\<lambda>opt L inp tgt. (opt, lparams L))\<rparr>"

definition demo_optimizer :: "param list \<Rightarrow> optimizer" where
  "demo_optimizer ps = \<lparr>lr = 1/50000, buffers = []\<rparr>"

definition demo_loss :: "tensor \<Rightarrow> tensor \<Rightarrow> fl" where
  "demo_loss out y = Fin 0"

definition demo_trainer :: trainer where
  "demo_trainer =
     fst (init [LocoLayer demo_loco] demo_loss demo_optimizer 10 5 ''LocoPropM'' 0 (1/10))"

text \<open>
  A trainer over a LocoLayer and a plain trainable layer, with no local iteration,
  whose slot list was then overwritten so that the plain layer has an optimizer.
\<close>

definition demo_plain :: layer where
  "demo_plain = PlainLayer (\<lambda>ps x. x) [demo_param]"

definition corrupted_trainer :: trainer where
  "corrupted_trainer =
     (fst (init [LocoLayer demo_loco, demo_plain] demo_loss demo_optimizer 10 0
             ''LocoPropM'' 0 (1/10)))
       \<lparr>opts := [Some (demo_optimizer [demo_param]), Some (demo_optimizer [demo_param])]\<rparr>"

section \<open>The pseudo-inverse and the Bregman loss\<close>

lemma load_fast_y: "load_fast [''target'' \<mapsto> t] ''y'' = Inl (UnboundLocalError ''y'')"
  by (simp add: load_fast_def)

lemma pseudo_inverse_raises:
  "pseudo_inverse L t =
     (case lact L of OtherAct f \<Rightarrow> Inl (ValueError UnsupportedActivation)
      | _ \<Rightarrow> Inl (UnboundLocalError ''y''))"
  by (simp add: pseudo_inverse_def load_fast_y split: activation.splits)

lemma bregman_loss_raises:
  "bregman_loss L x y =
     (case lact L of OtherAct f \<Rightarrow> Inl (ValueError UnsupportedActivation)
      | _ \<Rightarrow> Inl (UnboundLocalError ''y''))"
  by (simp add: bregman_loss_def pseudo_inverse_raises split: activation.splits)

text \<open>
  C1. The claim is that \<open>_pseudo_inverse\<close> applied to the activation of a pre-activation
  returns that pre-activation, for each of the four supported kinds. The function as
  written returns nothing: for each of the four kinds, and for every layer and every
  tensor, the first statement of the branch reads the unbound local \<open>y\<close> and the call
  ends in UnboundLocalError.
\<close>

theorem pseudo_inverse_unbound_local:
  "pseudo_inverse (L\<lparr>lact := Sigmoid\<rparr>) (apply_activation Sigmoid pre_act)
     = Inl (UnboundLocalError ''y'')
   \<and> pseudo_inverse (L\<lparr>lact := Tanh\<rparr>) (apply_activation Tanh pre_act)
     = Inl (UnboundLocalError ''y'')
   \<and> pseudo_inverse (L\<lparr>lact := ReLU\<rparr>) (apply_activation ReLU pre_act)
     = Inl (UnboundLocalError ''y'')
   \<and> pseudo_inverse (L\<lparr>lact := Softmax\<rparr>) (apply_activation Softmax pre_act)
     = Inl (UnboundLocalError ''y'')"
  by (simp add: pseudo_inverse_raises)

text \<open>
  C2. The claim is that \<open>bregman_loss\<close> returns the Bregman divergence of the
  pre-activation and the pseudo-inverted target. The function as written calls
  \<open>_pseudo_inverse\<close> on its second line, so for each of the four supported kinds, and
  for every layer, input and target, it ends in the same UnboundLocalError.
\<close>

theorem bregman_loss_unbound_local:
  "bregman_loss (L\<lparr>lact := Sigmoid\<rparr>) x y = Inl (UnboundLocalError ''y'')
   \<and> bregman_loss (L\<lparr>lact := Tanh\<rparr>) x y = Inl (UnboundLocalError ''y'')
   \<and> bregman_loss (L\<lparr>lact := ReLU\<rparr>) x y = Inl (UnboundLocalError ''y'')
   \<and> bregman_loss (L\<lparr>lact := Softmax\<rparr>) x y = Inl (UnboundLocalError ''y'')"
  by (simp add: bregman_loss_raises)

section \<open>The forward call of a layer\<close>

text \<open>
  C8. \<open>forward\<close> with neither the input nor the hidden state raises the ValueError of a
  missing argument; with exactly one of the two it returns a tensor, so it does not
  raise it.
\<close>

theorem forward_argument_check:
  "forward L None None = Inl (ValueError NoArgumentGiven)
   \<and> forward L (Some x) None
     = Inr (if implicit L then hidden L x else apply_activation (lact L) (hidden L x))
   \<and> forward L None (Some h) = Inr (if implicit L then h else apply_activation (lact L) h)"
  by (simp add: Let_def)

text \<open>
  C9. \<open>forward\<close> with both the input and the hidden state does not raise: it returns
  the hidden state (implicit) or its activation, whatever the input and whatever the
  wrapped module are, so the module is not applied to the input.
\<close>

theorem forward_both_supplied:
  "forward L (Some x) (Some h) = Inr (if implicit L then h else apply_activation (lact L) h)
   \<and> forward (L\<lparr>lmodule := m\<rparr>) (Some x') (Some h) = forward L (Some x) (Some h)"
  by simp

section \<open>Construction of the trainer\<close>

lemma init_layer_pair:
  "init_layer oc (os, ws) layer =
     (os @ [if is_LocoLayer layer \<and> 0 < trainable_params layer
            then Some (oc (parameters layer)) else None],
      if 0 < trainable_params layer \<and> \<not> is_LocoLayer layer then ws @ [length os] else ws)"
  by (simp add: init_layer_def Let_def)

lemma init_fold:
  "foldl (init_layer oc) (os, ws) mdl =
     (os @ map (\<lambda>layer. if is_LocoLayer layer \<and> 0 < trainable_params layer
                          then Some (oc (parameters layer)) else None) mdl,
      ws @ map (\<lambda>i. length os + i)
             (filter (\<lambda>i. 0 < trainable_params (mdl ! i) \<and> \<not> is_LocoLayer (mdl ! i))
                [0 ..< length mdl]))"
proof (induction mdl arbitrary: os ws)
  case Nil
  then show ?case by simp
next
  case (Cons layer mdl)
  have idx: "[0 ..< length (layer # mdl)] = 0 # map Suc [0 ..< length mdl]"
    by (simp add: upt_conv_Cons map_Suc_upt del: upt_Suc)
  show ?case
    unfolding idx foldl_Cons init_layer_pair Cons.IH
    by (simp add: filter_map comp_def)
qed

text \<open>
  C7. The slot list built by the constructor is the layer list mapped layer by layer:
  an optimizer over the layer's parameters where the layer is a LocoLayer with
  trainable parameters, \<open>None\<close> elsewhere; so it has the length of the layer list and
  is aligned with it. \<open>warnings.warn\<close> is called once for each index whose layer has
  trainable parameters and is not a LocoLayer, in order, and for no other; the slot at
  each of these indices is \<open>None\<close>.
\<close>

theorem init_slots:
  "opts (fst (init mdl lf oc lrate iters var mom corr)) =
     map (\<lambda>layer. if is_LocoLayer layer \<and> 0 < trainable_params layer
                   then Some (oc (parameters layer)) else None) mdl
   \<and> snd (init mdl lf oc lrate iters var mom corr) =
     filter (\<lambda>i. 0 < trainable_params (mdl ! i) \<and> \<not> is_LocoLayer (mdl ! i)) [0 ..< length mdl]
   \<and> length (opts (fst (init mdl lf oc lrate iters var mom corr))) = length mdl
   \<and> map (\<lambda>i. opts (fst (init mdl lf oc lrate iters var mom corr)) ! i)
         (snd (init mdl lf oc lrate iters var mom corr))
     = map (\<lambda>i. None) (snd (init mdl lf oc lrate iters var mom corr))"
  by (simp add: init_def Let_def init_fold)

section \<open>The loop over the optimizer slots\<close>

lemma correct_next_off: "correct_next 0 L i inp inps = Inr inps"
  by (simp add: correct_next_def)

lemma opt_body_inps_off:
  assumes "correction T = 0"
  shows "ls_inps (fst (opt_body eng T i item st)) = ls_inps st"
proof -
  obtain opt layer grad where item: "item = (opt, layer, grad)"
    by (cases item) auto
  show ?thesis
  proof (cases opt)
    case None
    with item show ?thesis by simp
  next
    case (Some ov)
    show ?thesis
    proof (cases layer)
      case (PlainLayer f ps)
      with item Some show ?thesis by simp
    next
      case (LocoLayer L)
      with item Some assms show ?thesis
        by (simp add: Let_def correct_next_off split: sum.splits option.splits)
    qed
  qed
qed

lemma opt_loop_inps_off:
  "correction T = 0 \<Longrightarrow> ls_inps (fst (opt_loop eng T i items st)) = ls_inps st"
proof (induction items arbitrary: i st)
  case Nil
  then show ?case by simp
next
  case (Cons item rest)
  obtain st' err where b: "opt_body eng T i item st = (st', err)"
    by (cases "opt_body eng T i item st") auto
  have keep: "ls_inps st' = ls_inps st"
    using opt_body_inps_off [OF Cons.prems, of eng i item st] b by simp
  show ?case
  proof (cases err)
    case None
    with b keep Cons.IH [OF Cons.prems, of "Suc i" st'] show ?thesis by simp
  next
    case (Some e)
    with b keep show ?thesis by simp
  qed
qed

text \<open>
  C5. With \<open>correction = 0\<close> the loop over the optimizer slots leaves the list of
  recorded inputs as it was, whatever the slots, the layers and the gradients are, and
  whether the loop ends normally or in an exception.
\<close>

theorem correction_zero_keeps_inps:
  "ls_inps (fst (opt_loop eng (T\<lparr>correction := 0\<rparr>) i items st)) = ls_inps st"
  by (rule opt_loop_inps_off) simp

lemma opt_loop_append:
  "opt_loop eng T i (xs @ ys) st =
     (case opt_loop eng T i xs st of
        (st', Some e) \<Rightarrow> (st', Some e)
      | (st', None) \<Rightarrow> opt_loop eng T (i + length xs) ys st')"
proof (induction xs arbitrary: i st)
  case Nil
  then show ?case by simp
next
  case (Cons x xs)
  obtain st' err where b: "opt_body eng T i x st = (st', err)"
    by (cases "opt_body eng T i x st") auto
  show ?case
  proof (cases err)
    case None
    with b Cons.IH [of "Suc i" st'] show ?thesis
      by (simp split: prod.splits option.splits)
  next
    case (Some e)
    with b show ?thesis by simp
  qed
qed

lemma opt_loop_reaches_plain:
  assumes "i < length items"
    and "items ! i = (Some opt, PlainLayer f ps, g)"
    and "opt_loop eng T 0 (take i items) st0 = (st, None)"
  shows "opt_loop eng T 0 items st0 = (st, Some (ValueError ExpectedLocoLayer))"
proof -
  have parts: "items = take i items @ (Some opt, PlainLayer f ps, g) # drop (Suc i) items"
    using assms(1,2) by (metis id_take_nth_drop)
  have "opt_loop eng T 0 items st0
      = opt_loop eng T 0 (take i items @ (Some opt, PlainLayer f ps, g) # drop (Suc i) items) st0"
    using parts by simp
  also have "\<dots> = (st, Some (ValueError ExpectedLocoLayer))"
    unfolding opt_loop_append using assms(3) by simp
  finally show ?thesis .
qed

text \<open>A pass of the loop at index \<open>i\<close> writes no layer and no optimizer at another index.\<close>

lemma opt_body_frame:
  assumes "n \<noteq> i"
  shows "ls_model (fst (opt_body eng T i item st)) ! n = ls_model st ! n
       \<and> ls_opts (fst (opt_body eng T i item st)) ! n = ls_opts st ! n"
proof -
  obtain opt layer grad where item: "item = (opt, layer, grad)"
    by (cases item) auto
  show ?thesis
  proof (cases opt)
    case None
    with item show ?thesis by simp
  next
    case (Some ov)
    show ?thesis
    proof (cases layer)
      case (PlainLayer f ps)
      with item Some show ?thesis by simp
    next
      case (LocoLayer L)
      with item Some assms show ?thesis
        by (simp add: Let_def split: sum.splits option.splits)
    qed
  qed
qed

lemma opt_loop_frame:
  "n < i \<or> i + length items \<le> n \<Longrightarrow>
     ls_model (fst (opt_loop eng T i items st)) ! n = ls_model st ! n
   \<and> ls_opts (fst (opt_loop eng T i items st)) ! n = ls_opts st ! n"
proof (induction items arbitrary: i st)
  case Nil
  then show ?case by simp
next
  case (Cons item rest)
  obtain st' err where b: "opt_body eng T i item st = (st', err)"
    by (cases "opt_body eng T i item st") auto
  have ni: "n \<noteq> i" using Cons.prems by auto
  have keep: "ls_model st' ! n = ls_model st ! n \<and> ls_opts st' ! n = ls_opts st ! n"
    using opt_body_frame [OF ni, of eng T item st] b by simp
  show ?case
  proof (cases err)
    case None
    have "n < Suc i \<or> Suc i + length rest \<le> n" using Cons.prems by auto
    from Cons.IH [OF this, of st'] b None keep show ?thesis by simp
  next
    case (Some e)
    with b keep show ?thesis by simp
  qed
qed

text \<open>
  The check of the loop itself: when the first half of \<open>step\<close> succeeds and the loop
  reaches an index whose slot holds an optimizer and whose layer is not a LocoLayer,
  \<open>step\<close> raises the ValueError on the layer's class, and that layer and that optimizer
  are in the trainer as they were when the loop began.
\<close>

lemma step_raises_at_reached_slot:
  assumes "step_prepare eng T xs ys = (T2, Inr (inps, loss))"
    and "i < length (slot_items T2)"
    and "slot_items T2 ! i = (Some opt, PlainLayer f ps, g)"
    and "opt_loop eng T2 0 (take i (slot_items T2))
           \<lparr>ls_model = model T2, ls_opts = opts T2, ls_inps = inps\<rparr> = (st, None)"
  shows "step eng T xs ys =
           (T2\<lparr>model := ls_model st, opts := ls_opts st\<rparr>, Inl (ValueError ExpectedLocoLayer))
       \<and> model (fst (step eng T xs ys)) ! i = PlainLayer f ps
       \<and> opts (fst (step eng T xs ys)) ! i = Some opt"
proof -
  have res: "step eng T xs ys =
           (T2\<lparr>model := ls_model st, opts := ls_opts st\<rparr>, Inl (ValueError ExpectedLocoLayer))"
    using assms(1) opt_loop_reaches_plain [OF assms(2,3,4)]
    by (simp add: step_def)
  have len: "i < length (opts T2)" "i < length (model T2)" "i < length (grads T2)"
    using assms(2) by (simp_all add: slot_items_def)
  then have at: "opts T2 ! i = Some opt" "model T2 ! i = PlainLayer f ps"
    using assms(3) by (simp_all add: slot_items_def)
  have "0 + length (take i (slot_items T2)) \<le> i"
    using assms(2) by simp
  then have "i < 0 \<or> 0 + length (take i (slot_items T2)) \<le> i" ..
  from opt_loop_frame [OF this, of eng T2 "\<lparr>ls_model = model T2, ls_opts = opts T2, ls_inps = inps\<rparr>"]
  have "ls_model st ! i = model T2 ! i" "ls_opts st ! i = opts T2 ! i"
    using assms(4) by simp_all
  with res at show ?thesis by simp
qed

section \<open>The first half of a step\<close>

lemma forward_pass_total:
  "\<exists>r. forward_pass items cur inps hiddens = Inr r"
proof (induction items arbitrary: cur inps hiddens)
  case Nil
  then show ?case by simp
next
  case (Cons item rest)
  obtain layer opt where item: "item = (layer, opt)"
    by (cases item) auto
  show ?case
  proof (cases layer)
    case (PlainLayer f ps)
    with item Cons.IH show ?thesis by simp
  next
    case (LocoLayer L)
    with item Cons.IH show ?thesis
      by (cases opt) (simp_all add: Let_def)
  qed
qed

lemma ema_slot_error: "ema_slot mom d g m = Inl e \<Longrightarrow> e = TypeError \<or> e = RuntimeError"
  by (cases "(mom, d, g, m)" rule: ema_slot.cases)
     (auto simp: tadd_def tzip_def split: sum.splits if_splits)

lemma ema_all_error: "ema_all mom d gms = Inl e \<Longrightarrow> e = TypeError \<or> e = RuntimeError"
proof (induction gms arbitrary: e)
  case Nil
  then show ?case by simp
next
  case (Cons gm rest)
  obtain g m where gm: "gm = (g, m)" by (cases gm) auto
  from Cons.prems gm show ?case
    by (auto split: sum.splits dest: ema_slot_error Cons.IH)
qed

lemma smooth_error: "smooth T gs = Inl e \<Longrightarrow> e = TypeError \<or> e = RuntimeError"
  by (auto simp: smooth_def Let_def split: if_splits dest: ema_all_error)

text \<open>
  C10. When \<open>step\<close> raises the ValueError on a layer's class, the trainer it leaves has
  the counter of the call incremented and holds, as its gradient slots, the smoothed
  gradients that this call computed from its own forward pass: neither is restored.
\<close>

theorem step_error_keeps_counter_and_grads:
  assumes "step eng T xs ys = (T', Inl (ValueError ExpectedLocoLayer))"
  shows "step_count T' = step_count T + 1
       \<and> (\<exists>inps hiddens cur.
            forward_pass (zip (model T) (opts T)) xs [] [] = Inr (inps, hiddens, cur)
          \<and> smooth (T\<lparr>step_count := step_count T + 1\<rparr>)
               (collect_grads eng (T\<lparr>step_count := step_count T + 1\<rparr>) xs ys hiddens)
              = Inr (grads T'))"
proof -
  obtain inps hiddens cur where fp:
    "forward_pass (zip (model T) (opts T)) xs [] [] = Inr (inps, hiddens, cur)"
    using forward_pass_total [of "zip (model T) (opts T)" xs "[]" "[]"] by (metis prod_cases3)
  let ?T1 = "T\<lparr>step_count := step_count T + 1\<rparr>"
  let ?gs = "collect_grads eng ?T1 xs ys hiddens"
  show ?thesis
  proof (cases "smooth ?T1 ?gs")
    case (Inl e)
    then have "step eng T xs ys = (?T1, Inl e)"
      using fp by (simp add: step_def step_prepare_def Let_def)
    with assms smooth_error [OF Inl] show ?thesis by auto
  next
    case (Inr ms)
    let ?T2 = "?T1\<lparr>grads := ms, model := map enable_grad (model ?T1)\<rparr>"
    obtain st err where lp:
      "opt_loop eng ?T2 0 (slot_items ?T2)
         \<lparr>ls_model = model ?T2, ls_opts = opts ?T2, ls_inps = inps\<rparr> = (st, err)"
      by (metis surj_pair)
    have "fst (step eng T xs ys) = ?T2\<lparr>model := ls_model st, opts := ls_opts st\<rparr>"
      using fp Inr lp by (simp add: step_def step_prepare_def Let_def)
    with assms have "T' = ?T2\<lparr>model := ls_model st, opts := ls_opts st\<rparr>"
      by simp
    then have "step_count T' = step_count T + 1" and "grads T' = ms"
      by simp_all
    with fp Inr show ?thesis by auto
  qed
qed

section \<open>Steps of the small trainers\<close>

lemma demo_trainer_eq:
  "demo_trainer = \<lparr>model = [LocoLayer demo_loco], loss_fn = demo_loss, learning_rate = 10,
      local_iterations = 5, variant = ''LocoPropM'', momentum = 0, correction = 1/10,
      opts = [Some \<lparr>lr = 1/50000, buffers = []\<rparr>], grads = [], step_count = 0\<rparr>"
  by (simp add: demo_trainer_def init_def init_layer_def Let_def trainable_params_def
      demo_loco_def demo_param_def numel_def demo_optimizer_def)

lemmas demo_eval =
  demo_loco_def hidden_def collect_grads_def demo_engine_def smooth_def enable_grad_def
  demo_param_def slot_items_def py_index_def tsub_def tadd_def tzip_def shape_def smul_def
  sdiv_def tmap_def fl_sub_def Let_def bregman_loss_raises upt_conv_Cons demo_loss_def

lemma demo_first_step:
  "step demo_engine demo_trainer [[Fin 0]] [[Fin 1]] =
     (demo_trainer\<lparr>step_count := 1, grads := [Some [[Fin 1]]]\<rparr>, Inl (UnboundLocalError ''y''))"
  apply (simp add: demo_trainer_eq step_def step_prepare_def Let_def)
  apply (simp add: demo_eval)
  done

lemma demo_second_step:
  "step demo_engine (demo_trainer\<lparr>step_count := 1, grads := [Some [[Fin 1]]]\<rparr>)
       [[Fin 0]] [[Fin 1]] =
     (demo_trainer\<lparr>step_count := 2, grads := [Some [[PInf]]]\<rparr>, Inl (UnboundLocalError ''y''))"
  apply (simp add: demo_trainer_eq step_def step_prepare_def Let_def)
  apply (simp add: demo_eval)
  done

lemma demo_first_step_no_iteration:
  "step demo_engine (demo_trainer\<lparr>local_iterations := 0\<rparr>) [[Fin 0]] [[Fin 1]] =
     (demo_trainer\<lparr>local_iterations := 0, step_count := 1, grads := [Some [[Fin 1]]]\<rparr>,
      Inr (Fin 0))"
  apply (simp add: demo_trainer_eq step_def step_prepare_def Let_def)
  apply (simp add: demo_eval correct_next_def)
  done

lemma demo_second_step_no_iteration:
  "step demo_engine
       (demo_trainer\<lparr>local_iterations := 0, step_count := 1, grads := [Some [[Fin 1]]]\<rparr>)
       [[Fin 0]] [[Fin 1]] =
     (demo_trainer\<lparr>local_iterations := 0, step_count := 2, grads := [Some [[PInf]]]\<rparr>,
      Inr (Fin 0))"
  apply (simp add: demo_trainer_eq step_def step_prepare_def Let_def)
  apply (simp add: demo_eval correct_next_def)
  done

text \<open>
  C3. The claim is that with \<open>momentum = 0\<close> every gradient slot equals the gradient
  observed in the call, at the first call and at every later one. Here is the small
  trainer, whose momentum is 0 and whose observed gradient is 1 in every call. After
  the first call the slot is 1. In the second call the divisor
  \<open>1 - (1 - momentum) ** step\<close> is 0, and the slot is \<open>inf\<close>. It is so with the
  default five local iterations, where each call also ends in the UnboundLocalError
  of C1, and with no local iteration, where each call returns the loss.
\<close>

theorem momentum_zero_second_step:
  "momentum demo_trainer = 0
   \<and> collect_grads demo_engine demo_trainer [[Fin 0]] [[Fin 1]] [Some [[Fin 0]]]
       = [Some [[Fin 1]]]
   \<and> grads (fst (step demo_engine demo_trainer [[Fin 0]] [[Fin 1]])) = [Some [[Fin 1]]]
   \<and> grads (fst (step demo_engine (fst (step demo_engine demo_trainer [[Fin 0]] [[Fin 1]]))
                    [[Fin 0]] [[Fin 1]])) = [Some [[PInf]]]
   \<and> step demo_engine (demo_trainer\<lparr>local_iterations := 0\<rparr>) [[Fin 0]] [[Fin 1]]
       = (demo_trainer\<lparr>local_iterations := 0, step_count := 1, grads := [Some [[Fin 1]]]\<rparr>,
          Inr (Fin 0))
   \<and> step demo_engine
        (fst (step demo_engine (demo_trainer\<lparr>local_iterations := 0\<rparr>) [[Fin 0]] [[Fin 1]]))
        [[Fin 0]] [[Fin 1]]
       = (demo_trainer\<lparr>local_iterations := 0, step_count := 2, grads := [Some [[PInf]]]\<rparr>,
          Inr (Fin 0))"
proof -
  have "momentum demo_trainer = 0"
    by (simp add: demo_trainer_eq)
  moreover have "collect_grads demo_engine demo_trainer [[Fin 0]] [[Fin 1]] [Some [[Fin 0]]]
       = [Some [[Fin 1]]]"
    by (simp add: collect_grads_def demo_engine_def)
  ultimately show ?thesis
    unfolding demo_first_step demo_first_step_no_iteration fst_conv
      demo_second_step demo_second_step_no_iteration
    by simp
qed

lemma corrupted_trainer_eq:
  "corrupted_trainer = \<lparr>model = [LocoLayer demo_loco, demo_plain], loss_fn = demo_loss,
      learning_rate = 10, local_iterations = 0, variant = ''LocoPropM'', momentum = 0,
      correction = 1/10,
      opts = [Some \<lparr>lr = 1/50000, buffers = []\<rparr>, Some \<lparr>lr = 1/50000, buffers = []\<rparr>],
      grads = [], step_count = 0\<rparr>"
  by (simp add: corrupted_trainer_def init_def init_layer_def Let_def trainable_params_def
      demo_loco_def demo_plain_def demo_param_def numel_def demo_optimizer_def)

lemma corrupted_prepare:
  "step_prepare demo_engine corrupted_trainer [[Fin 0]] [[Fin 1]] =
     (corrupted_trainer\<lparr>step_count := Suc 0, grads := [Some [[Fin 1]], None]\<rparr>,
      Inr ([[[Fin 0]], [[Fin (1/2)]]], Fin 0))"
  apply (simp add: corrupted_trainer_eq step_prepare_def Let_def demo_plain_def)
  apply (simp add: demo_eval)
  done

lemma corrupted_slot_items:
  "slot_items (corrupted_trainer\<lparr>step_count := Suc 0, grads := [Some [[Fin 1]], None]\<rparr>) =
     [(Some \<lparr>lr = 1/50000, buffers = []\<rparr>, LocoLayer demo_loco, Some [[Fin 1]]),
      (Some \<lparr>lr = 1/50000, buffers = []\<rparr>, PlainLayer (\<lambda>ps x. x) [demo_param], None)]"
  by (simp add: corrupted_trainer_eq slot_items_def demo_plain_def)

lemma corrupted_first_pass:
  "opt_body demo_engine (corrupted_trainer\<lparr>step_count := Suc 0, grads := [Some [[Fin 1]], None]\<rparr>) 0
     (Some \<lparr>lr = 1/50000, buffers = []\<rparr>, LocoLayer demo_loco, Some [[Fin 1]])
     \<lparr>ls_model = [LocoLayer demo_loco, demo_plain],
      ls_opts = [Some \<lparr>lr = 1/50000, buffers = []\<rparr>, Some \<lparr>lr = 1/50000, buffers = []\<rparr>],
      ls_inps = [[[Fin 0]], [[Fin (1/2)]]]\<rparr>
   = (\<lparr>ls_model = [LocoLayer demo_loco, demo_plain],
       ls_opts = [Some \<lparr>lr = 1/50000, buffers = []\<rparr>, Some \<lparr>lr = 1/50000, buffers = []\<rparr>],
       ls_inps = [[[Fin 0]], [[Fin (1/2)]]]\<rparr>, None)"
  apply (simp add: corrupted_trainer_eq Let_def py_index_def)
  apply (simp add: demo_eval correct_next_def nudge_def tnorm_def fl_sum_def size1_def
      py_min_def)
  done

lemma corrupted_fields:
  "model (corrupted_trainer\<lparr>step_count := Suc 0, grads := gs\<rparr>) = [LocoLayer demo_loco, demo_plain]"
  "opts (corrupted_trainer\<lparr>step_count := Suc 0, grads := gs\<rparr>) =
     [Some \<lparr>lr = 1/50000, buffers = []\<rparr>, Some \<lparr>lr = 1/50000, buffers = []\<rparr>]"
  by (simp_all add: corrupted_trainer_eq)

lemma corrupted_step:
  "step demo_engine corrupted_trainer [[Fin 0]] [[Fin 1]] =
     (corrupted_trainer\<lparr>step_count := Suc 0, grads := [Some [[Fin 1]], None]\<rparr>,
      Inl (ValueError ExpectedLocoLayer))"
proof -
  have "step demo_engine corrupted_trainer [[Fin 0]] [[Fin 1]] =
     (corrupted_trainer\<lparr>step_count := Suc 0, grads := [Some [[Fin 1]], None],
        model := [LocoLayer demo_loco, demo_plain],
        opts := [Some \<lparr>lr = 1/50000, buffers = []\<rparr>, Some \<lparr>lr = 1/50000, buffers = []\<rparr>]\<rparr>,
      Inl (ValueError ExpectedLocoLayer))"
    by (simp add: step_def corrupted_prepare corrupted_slot_items corrupted_fields
        corrupted_first_pass del: opt_body.simps(3))
  then show ?thesis
    by (simp add: corrupted_trainer_eq)
qed

text \<open>A pass of the loop over a LocoLayer with an optimizer, once it has a target and a
  local iteration to run, ends in the exception of \<open>bregman_loss\<close>.\<close>

lemma local_iters_raises:
  "local_iters eng base_lr n inp post_target (j # js) (opt, L) =
     ((opt\<lparr>lr := base_lr * max (1 - real j / real_of_int n) (1/4)\<rparr>, L),
      Some (case lact L of OtherAct f \<Rightarrow> ValueError UnsupportedActivation
            | _ \<Rightarrow> UnboundLocalError ''y''))"
  by (simp add: Let_def bregman_loss_raises split: activation.splits)

lemma corrupted_defaults_eq:
  "corrupted_trainer\<lparr>local_iterations := 5\<rparr> =
     \<lparr>model = [LocoLayer demo_loco, demo_plain], loss_fn = demo_loss,
      learning_rate = 10, local_iterations = 5, variant = ''LocoPropM'', momentum = 0,
      correction = 1/10,
      opts = [Some \<lparr>lr = 1/50000, buffers = []\<rparr>, Some \<lparr>lr = 1/50000, buffers = []\<rparr>],
      grads = [], step_count = 0\<rparr>"
  by (simp add: corrupted_trainer_eq)

lemma corrupted_defaults_step:
  "step demo_engine (corrupted_trainer\<lparr>local_iterations := 5\<rparr>) [[Fin 0]] [[Fin 1]] =
     (corrupted_trainer\<lparr>local_iterations := 5, step_count := 1,
                        grads := [Some [[Fin 1]], None]\<rparr>,
      Inl (UnboundLocalError ''y''))"
  apply (simp add: corrupted_defaults_eq corrupted_trainer_eq step_def step_prepare_def
      Let_def demo_plain_def)
  apply (simp add: demo_eval)
  done

text \<open>
  C6. The claim is that \<open>step\<close> raises the ValueError on the layer's class whenever a
  slot holds an optimizer and the layer at its index is not a LocoLayer. Here is the
  trainer over a LocoLayer and a plain layer whose slot list gives the plain layer an
  optimizer, with the constructor's default of five local iterations. The slot at
  index 1 holds an optimizer and the layer at index 1 is not a LocoLayer. \<open>step\<close> does
  not raise that ValueError: the pass over the LocoLayer at index 0 calls
  \<open>bregman_loss\<close> in its first local iteration and ends in the UnboundLocalError of
  C1, so the loop never reaches index 1.
\<close>

theorem step_corrupted_slot_unbound_local:
  "opts (corrupted_trainer\<lparr>local_iterations := 5\<rparr>) ! 1
     = Some \<lparr>lr = 1/50000, buffers = []\<rparr>
   \<and> model (corrupted_trainer\<lparr>local_iterations := 5\<rparr>) ! 1
     = PlainLayer (\<lambda>ps x. x) [demo_param]
   \<and> is_LocoLayer (model (corrupted_trainer\<lparr>local_iterations := 5\<rparr>) ! 1) = False
   \<and> step demo_engine (corrupted_trainer\<lparr>local_iterations := 5\<rparr>) [[Fin 0]] [[Fin 1]]
     = (corrupted_trainer\<lparr>local_iterations := 5, step_count := 1,
                          grads := [Some [[Fin 1]], None]\<rparr>,
        Inl (UnboundLocalError ''y''))"
proof -
  have "opts (corrupted_trainer\<lparr>local_iterations := 5\<rparr>) ! 1
     = Some \<lparr>lr = 1/50000, buffers = []\<rparr>"
    by (simp add: corrupted_trainer_eq)
  moreover have at: "model (corrupted_trainer\<lparr>local_iterations := 5\<rparr>) ! 1
     = PlainLayer (\<lambda>ps x. x) [demo_param]"
    by (simp add: corrupted_trainer_eq demo_plain_def)
  moreover have "is_LocoLayer (model (corrupted_trainer\<lparr>local_iterations := 5\<rparr>) ! 1) = False"
    unfolding at by simp
  ultimately show ?thesis
    using corrupted_defaults_step by (intro conjI)
qed

text \<open>
  The trainer with the corrupted slot and no local iteration: the loop reaches index 1
  and \<open>step\<close> raises the ValueError, with the counter and the gradient slots written.
\<close>

theorem step_error_keeps_counter_and_grads_witness:
  "step demo_engine corrupted_trainer [[Fin 0]] [[Fin 1]] =
     (corrupted_trainer\<lparr>step_count := Suc 0, grads := [Some [[Fin 1]], None]\<rparr>,
      Inl (ValueError ExpectedLocoLayer))
   \<and> step_count (corrupted_trainer\<lparr>step_count := Suc 0, grads := [Some [[Fin 1]], None]\<rparr>)
       = step_count corrupted_trainer + 1
   \<and> (\<exists>inps hiddens cur.
         forward_pass (zip (model corrupted_trainer) (opts corrupted_trainer)) [[Fin 0]] [] []
           = Inr (inps, hiddens, cur)
       \<and> smooth (corrupted_trainer\<lparr>step_count := step_count corrupted_trainer + 1\<rparr>)
           (collect_grads demo_engine
              (corrupted_trainer\<lparr>step_count := step_count corrupted_trainer + 1\<rparr>)
              [[Fin 0]] [[Fin 1]] hiddens)
           = Inr (grads (corrupted_trainer\<lparr>step_count := Suc 0,
                                             grads := [Some [[Fin 1]], None]\<rparr>)))"
proof -
  have h: "step demo_engine corrupted_trainer [[Fin 0]] [[Fin 1]] =
     (corrupted_trainer\<lparr>step_count := Suc 0, grads := [Some [[Fin 1]], None]\<rparr>,
      Inl (ValueError ExpectedLocoLayer))"
    by (rule corrupted_step)
  from h step_error_keeps_counter_and_grads [OF h]
  show ?thesis by (rule conjI)
qed

end
